theory Spec2Isabelle
  imports Main "HOL-Library.FSet" "HOL-Library.Option_ord"
begin

section \<open>The stock allocation model of \<^verbatim>\<open>1_domain_modeling/model.py\<close>\<close>

subsection \<open>Data\<close>

text \<open>
  A \<^verbatim>\<open>datetime.date\<close> is represented by its proleptic Gregorian ordinal; dates compare
  as their ordinals do. Python's \<^verbatim>\<open>int\<close> is unbounded, hence \<open>int\<close>.
\<close>

type_synonym date = int

text \<open>
  \<^verbatim>\<open>@dataclass(frozen=True) class OrderLine\<close>: equality and hash are those of the three
  fields, which is the equality of the record.
\<close>

record order_line =
  orderid :: string
  sku :: string
  qty :: int

text \<open>
  \<^verbatim>\<open>class Batch\<close>. The attributes \<^verbatim>\<open>_purchased_quantity\<close> and \<^verbatim>\<open>_allocations\<close> lose
  their leading underscore. \<^verbatim>\<open>_allocations\<close> is a Python \<^verbatim>\<open>set\<close> of order lines: a finite
  set under the value equality of \<open>order_line\<close>.
\<close>

record batch =
  reference :: string
  sku :: string
  eta :: "date option"
  purchased_quantity :: int
  allocations :: "order_line fset"

text \<open>The exceptions of the model and of the service layer, each with its message.\<close>

datatype error =
    OutOfStock string
  | InvalidSku string
  | KeyError order_line

text \<open>\<^verbatim>\<open>Batch.__init__(ref, sku, qty, eta)\<close>.\<close>

definition Batch :: "string \<Rightarrow> string \<Rightarrow> int \<Rightarrow> date option \<Rightarrow> batch" where
  "Batch ref s q e =
     \<lparr>reference = ref, sku = s, eta = e, purchased_quantity = q, allocations = {||}\<rparr>"

subsection \<open>The methods of \<^verbatim>\<open>Batch\<close>\<close>

text \<open>
  \<^verbatim>\<open>__gt__\<close>: a batch without eta is greater than nothing; a dated batch is greater than
  every batch without eta, and greater than a dated batch when its eta is later.
\<close>

definition Batch_gt :: "batch \<Rightarrow> batch \<Rightarrow> bool" where
  "Batch_gt self other =
     (if eta self = None then False
      else if eta other = None then True
      else the (eta self) > the (eta other))"

text \<open>
  \<^verbatim>\<open>Batch\<close> defines no \<^verbatim>\<open>__lt__\<close>: Python evaluates \<^verbatim>\<open>x < y\<close> on two batches by the
  reflected call \<^verbatim>\<open>y.__gt__(x)\<close>.
\<close>

definition Batch_lt :: "batch \<Rightarrow> batch \<Rightarrow> bool" where
  "Batch_lt x y = Batch_gt y x"

definition allocated_quantity :: "batch \<Rightarrow> int" where
  "allocated_quantity self = fsum qty (allocations self)"

definition available_quantity :: "batch \<Rightarrow> int" where
  "available_quantity self = purchased_quantity self - allocated_quantity self"

definition can_allocate :: "batch \<Rightarrow> order_line \<Rightarrow> bool" where
  "can_allocate self line \<longleftrightarrow>
     sku self = order_line.sku line \<and> available_quantity self \<ge> qty line"

text \<open>\<^verbatim>\<open>Batch.allocate\<close>: \<^verbatim>\<open>set.add\<close> cannot raise on a hashable element.\<close>

definition Batch_allocate :: "batch \<Rightarrow> order_line \<Rightarrow> batch" where
  "Batch_allocate self line =
     (if can_allocate self line
      then self\<lparr>allocations := finsert line (allocations self)\<rparr>
      else self)"

text \<open>\<^verbatim>\<open>set.remove\<close> raises \<^verbatim>\<open>KeyError\<close> when the element is absent.\<close>

definition set_remove :: "order_line \<Rightarrow> order_line fset \<Rightarrow> error + order_line fset" where
  "set_remove x s = (if x |\<in>| s then Inr (s |-| {|x|}) else Inl (KeyError x))"

definition Batch_deallocate :: "batch \<Rightarrow> order_line \<Rightarrow> error + batch" where
  "Batch_deallocate self line =
     (if line |\<in>| allocations self
      then (case set_remove line (allocations self) of
              Inl e \<Rightarrow> Inl e
            | Inr s \<Rightarrow> Inr (self\<lparr>allocations := s\<rparr>))
      else Inr self)"

subsection \<open>Calling the methods of one batch\<close>

text \<open>
  A method call on a batch object returns a value or raises, and leaves the object in a
  new state. \<open>invoke\<close> gives both for the three public methods; \<open>run\<close> performs a
  sequence of calls on one batch and stops at the first exception.
\<close>

datatype call = Allocate order_line | Deallocate order_line | CanAllocate order_line

datatype pyval = PyNone | PyBool bool

fun invoke :: "call \<Rightarrow> batch \<Rightarrow> (error + pyval) \<times> batch" where
  "invoke (Allocate line) self = (Inr PyNone, Batch_allocate self line)"
| "invoke (Deallocate line) self =
     (case Batch_deallocate self line of
        Inl e \<Rightarrow> (Inl e, self)
      | Inr self' \<Rightarrow> (Inr PyNone, self'))"
| "invoke (CanAllocate line) self = (Inr (PyBool (can_allocate self line)), self)"

fun call_line :: "call \<Rightarrow> order_line" where
  "call_line (Allocate line) = line"
| "call_line (Deallocate line) = line"
| "call_line (CanAllocate line) = line"

fun run :: "call list \<Rightarrow> batch \<Rightarrow> error + batch" where
  "run [] self = Inr self"
| "run (c # cs) self =
     (case invoke c self of
        (Inl e, _) \<Rightarrow> Inl e
      | (Inr _, self') \<Rightarrow> run cs self')"

subsection \<open>The allocation kernel\<close>

text \<open>
  Batches are objects: the list handed to the kernel holds references, the same object
  may occur in it more than once, and the kernel mutates the object it selects. The heap
  maps every address to the state of the batch object there.
\<close>

type_synonym addr = nat
type_synonym heap = "addr \<Rightarrow> batch"

text \<open>
  \<^verbatim>\<open>sorted\<close> compares with \<^verbatim>\<open><\<close> only and is stable. The model is the stable insertion
  sort: scanning the input from the right, each element is put in front of the first
  element of the sorted rest that is not less than it.
\<close>

fun insort_lt :: "('a \<Rightarrow> 'a \<Rightarrow> bool) \<Rightarrow> 'a \<Rightarrow> 'a list \<Rightarrow> 'a list" where
  "insort_lt lt x [] = [x]"
| "insort_lt lt x (y # ys) = (if lt y x then y # insort_lt lt x ys else x # y # ys)"

definition sorted_py :: "('a \<Rightarrow> 'a \<Rightarrow> bool) \<Rightarrow> 'a list \<Rightarrow> 'a list" where
  "sorted_py lt xs = foldr (insort_lt lt) xs []"

definition sorted_batches :: "heap \<Rightarrow> addr list \<Rightarrow> addr list" where
  "sorted_batches h batches = sorted_py (\<lambda>x y. Batch_lt (h x) (h y)) batches"

text \<open>
  \<^verbatim>\<open>allocate(line, batches)\<close>. \<^verbatim>\<open>next\<close> on the generator is \<open>find\<close>: \<open>None\<close> is
  \<^verbatim>\<open>StopIteration\<close>, which the \<^verbatim>\<open>except\<close> clause turns into \<^verbatim>\<open>OutOfStock\<close>.
\<close>

definition allocate :: "order_line \<Rightarrow> addr list \<Rightarrow> heap \<Rightarrow> (error + string) \<times> heap" where
  "allocate line batches h =
     (case find (\<lambda>b. can_allocate (h b) line) (sorted_batches h batches) of
        None \<Rightarrow> (Inl (OutOfStock (''Out of stock for sku '' @ order_line.sku line)), h)
      | Some b \<Rightarrow>
          (let h' = h(b := Batch_allocate (h b) line)
           in (Inr (reference (h' b)), h')))"

section \<open>The service layer\<close>

subsection \<open>\<^verbatim>\<open>4_service_layer/services.py\<close>\<close>

text \<open>
  The service works on a repository and a session. \<open>repo_rows\<close> is what \<^verbatim>\<open>repo.list()\<close>
  returns (the batch objects the session holds), \<open>st_heap\<close> the state of these objects, and
  \<open>commits\<close> counts the calls of \<^verbatim>\<open>session.commit()\<close>.
\<close>

record state =
  st_heap :: heap
  repo_rows :: "addr list"
  commits :: nat

text \<open>\<^verbatim>\<open>sku in {b.sku for b in batches}\<close>.\<close>

definition is_valid_sku :: "string \<Rightarrow> addr list \<Rightarrow> heap \<Rightarrow> bool" where
  "is_valid_sku s bs h \<longleftrightarrow> s \<in> (\<lambda>b. sku (h b)) ` set bs"

text \<open>
  \<^verbatim>\<open>services.allocate(line, repo, session)\<close>. The kernel is reached through the module
  attribute \<^verbatim>\<open>model.allocate\<close>; it is the first argument here, so that a statement can
  say that a result does not depend on it. An exception of the kernel leaves the function
  before \<^verbatim>\<open>session.commit()\<close>.
\<close>

definition services_allocate_with ::
  "(order_line \<Rightarrow> addr list \<Rightarrow> heap \<Rightarrow> (error + string) \<times> heap) \<Rightarrow>
   order_line \<Rightarrow> state \<Rightarrow> (error + string) \<times> state" where
  "services_allocate_with model_allocate line st =
     (let bs = repo_rows st in
      if \<not> is_valid_sku (order_line.sku line) bs (st_heap st)
      then (Inl (InvalidSku (''Invalid sku '' @ order_line.sku line)), st)
      else (case model_allocate line bs (st_heap st) of
              (Inl e, h') \<Rightarrow> (Inl e, st\<lparr>st_heap := h'\<rparr>)
            | (Inr batchref, h') \<Rightarrow>
                (Inr batchref, st\<lparr>st_heap := h', commits := commits st + 1\<rparr>)))"

definition services_allocate :: "order_line \<Rightarrow> state \<Rightarrow> (error + string) \<times> state" where
  "services_allocate = services_allocate_with allocate"

subsection \<open>The Product aggregate\<close>

text \<open>
  Modelled from the spec: the class \<^verbatim>\<open>Product\<close> of \<^verbatim>\<open>allocation/domain/model.py\<close>, which is
  not among the sources. The aggregate has a SKU, the ordered collection of the batches it
  owns (references to batch objects) and the version number, an integer counter.
\<close>

record product =
  sku :: string
  batches :: "addr list"
  version_number :: int

text \<open>
  Modelled from the spec: \<^verbatim>\<open>Product.allocate\<close> of \<^verbatim>\<open>allocation/domain/model.py\<close>, which is
  not among the sources. It delegates to the algorithm of the kernel on the product's own
  batches, increments \<^verbatim>\<open>version_number\<close> on success and fails with the same out-of-stock
  condition.
\<close>

definition Product_allocate ::
  "product \<Rightarrow> order_line \<Rightarrow> heap \<Rightarrow> (error + string) \<times> product \<times> heap" where
  "Product_allocate self line h =
     (case allocate line (batches self) h of
        (Inl e, h') \<Rightarrow> (Inl e, self, h')
      | (Inr batchref, h') \<Rightarrow>
          (Inr batchref, self\<lparr>version_number := version_number self + 1\<rparr>, h'))"

text \<open>
  A caller that allocates a sequence of lines against one product, one call of
  \<^verbatim>\<open>Product.allocate\<close> per line; an allocation that fails is recorded and the caller goes
  on with the next line.
\<close>

fun allocate_lines ::
  "order_line list \<Rightarrow> product \<Rightarrow> heap \<Rightarrow> (error + string) list \<times> product \<times> heap" where
  "allocate_lines [] p h = ([], p, h)"
| "allocate_lines (line # ls) p h =
     (case Product_allocate p line h of
        (r, p', h') \<Rightarrow>
          (case allocate_lines ls p' h' of (rs, p'', h'') \<Rightarrow> (r # rs, p'', h'')))"

subsection \<open>\<^verbatim>\<open>8_events_and_the_message_bus\<close>: \<^verbatim>\<open>service_layer/services.py\<close>\<close>

text \<open>
  Modelled from the spec: the unit of work (\<^verbatim>\<open>unit_of_work.py\<close> is not among the sources),
  the persistence collaborator that hands out products by SKU and owns the commit. It
  holds the repository \<^verbatim>\<open>uow.products\<close>: \<open>rows\<close> is the abstract \<^verbatim>\<open>_get\<close> (the product
  stored under a SKU, or \<^verbatim>\<open>None\<close>) and \<open>seen\<close> the products handed out so far, named by
  their SKU. \<open>uow_heap\<close> holds the batch objects and \<open>uow_commits\<close> counts the calls of
  \<^verbatim>\<open>uow.commit()\<close>. Entering and leaving the \<^verbatim>\<open>with\<close> block changes none of these.
\<close>

record unit_of_work =
  rows :: "string \<rightharpoonup> product"
  seen :: "string set"
  uow_heap :: heap
  uow_commits :: nat

text \<open>\<^verbatim>\<open>AbstractRepository.get\<close>: a product object is truthy.\<close>

definition repository_get :: "string \<Rightarrow> unit_of_work \<Rightarrow> product option \<times> unit_of_work" where
  "repository_get s u =
     (let p = rows u s
      in (p, if p \<noteq> None then u\<lparr>seen := insert s (seen u)\<rparr> else u))"

text \<open>
  \<^verbatim>\<open>services.allocate(orderid, sku, qty, uow)\<close>, with \<^verbatim>\<open>product.allocate\<close> as first
  argument. The product returned by the call replaces the stored one: the repository
  holds the object that the call mutates.
\<close>

definition services_allocate_uow_with ::
  "(product \<Rightarrow> order_line \<Rightarrow> heap \<Rightarrow> (error + string) \<times> product \<times> heap) \<Rightarrow>
   string \<Rightarrow> string \<Rightarrow> int \<Rightarrow> unit_of_work \<Rightarrow> (error + string) \<times> unit_of_work" where
  "services_allocate_uow_with product_allocate oid s q u =
     (let line = \<lparr>orderid = oid, sku = s, qty = q\<rparr> in
      case repository_get (order_line.sku line) u of
        (None, u') \<Rightarrow> (Inl (InvalidSku (''Invalid sku '' @ order_line.sku line)), u')
      | (Some p, u') \<Rightarrow>
          (case product_allocate p line (uow_heap u') of
             (Inl e, p', h') \<Rightarrow>
               (Inl e, u'\<lparr>rows := (rows u')(order_line.sku line \<mapsto> p'), uow_heap := h'\<rparr>)
           | (Inr batchref, p', h') \<Rightarrow>
               (Inr batchref,
                u'\<lparr>rows := (rows u')(order_line.sku line \<mapsto> p'), uow_heap := h',
                    uow_commits := uow_commits u' + 1\<rparr>)))"

definition services_allocate_uow ::
  "string \<Rightarrow> string \<Rightarrow> int \<Rightarrow> unit_of_work \<Rightarrow> (error + string) \<times> unit_of_work" where
  "services_allocate_uow = services_allocate_uow_with Product_allocate"

section \<open>Example objects\<close>

text \<open>
  The scenario of \<^verbatim>\<open>test_current_stock_batches_to_shipments\<close>: an in-stock batch at
  address 0 and a shipment due on day 738000 at address 1, both of 100 clocks.
\<close>

definition clock_line :: order_line where
  "clock_line = \<lparr>orderid = ''oref'', sku = ''RETRO-CLOCK'', qty = 10\<rparr>"

definition toaster_line :: order_line where
  "toaster_line = \<lparr>orderid = ''order-123'', sku = ''EXPENSIVE-TOASTER'', qty = 10\<rparr>"

definition clock_heap :: heap where
  "clock_heap =
     (\<lambda>_. Batch [] [] 0 None)
       (0 := Batch ''in-stock-batch'' ''RETRO-CLOCK'' 100 None,
        1 := Batch ''shipment-batch'' ''RETRO-CLOCK'' 100 (Some 738000))"

text \<open>The same heap after \<open>clock_line\<close> has been allocated to the in-stock batch.\<close>

definition clock_heap_allocated :: heap where
  "clock_heap_allocated =
     clock_heap(0 := (clock_heap 0)\<lparr>allocations := {|clock_line|}\<rparr>)"

definition clock_state :: state where
  "clock_state = \<lparr>st_heap = clock_heap, repo_rows = [0, 1], commits = 0\<rparr>"

definition clock_product :: product where
  "clock_product = \<lparr>sku = ''RETRO-CLOCK'', batches = [1, 0], version_number = 0\<rparr>"

definition clock_uow :: unit_of_work where
  "clock_uow =
     \<lparr>rows = [''RETRO-CLOCK'' \<mapsto> clock_product], seen = {}, uow_heap = clock_heap,
      uow_commits = 0\<rparr>"

text \<open>The batch and the line of \<^verbatim>\<open>test_allocating_to_a_batch_reduces_available_quantity\<close>.\<close>

definition table_batch :: batch where
  "table_batch = Batch ''batch-001'' ''SMALL-TABLE'' 20 (Some 738000)"

definition table_line :: order_line where
  "table_line = \<lparr>orderid = ''order-ref'', sku = ''SMALL-TABLE'', qty = 2\<rparr>"

text \<open>The batch and the line of \<^verbatim>\<open>test_allocate_if_available_smaller_than_required\<close>.\<close>

definition small_batch :: batch where
  "small_batch = Batch ''batch-001'' ''ELEGANT-LAMP'' 2 (Some 738000)"

definition large_line :: order_line where
  "large_line = \<lparr>orderid = ''order-123'', sku = ''ELEGANT-LAMP'', qty = 20\<rparr>"

section \<open>The invariant of a batch\<close>

text \<open>
  The available quantity is not negative and every allocated line asks for a positive
  quantity.
\<close>

definition batch_inv :: "batch \<Rightarrow> bool" where
  "batch_inv b \<longleftrightarrow> 0 \<le> available_quantity b \<and> (\<forall>l. l |\<in>| allocations b \<longrightarrow> 0 < qty l)"

section \<open>Properties of \<^verbatim>\<open>Batch\<close>\<close>

lemma allocated_quantity_sum:
  "allocated_quantity self = (\<Sum>l \<in> fset (allocations self). qty l)"
  by (simp add: allocated_quantity_def fsum.F.rep_eq)

text \<open>
  C3. \<^verbatim>\<open>can_allocate\<close> holds exactly when the SKUs agree and the line's quantity is at
  most the available quantity, the purchased quantity less the sum of the quantities of
  the allocated lines; the call returns that truth value, raises nothing and leaves the
  batch as it was.
\<close>

theorem can_allocate_spec:
  "(can_allocate b line \<longleftrightarrow>
      order_line.sku line = batch.sku b \<and> qty line \<le> available_quantity b)
   \<and> available_quantity b = purchased_quantity b - (\<Sum>l \<in> fset (allocations b). qty l)
   \<and> invoke (CanAllocate line) b =
       (Inr (PyBool (order_line.sku line = batch.sku b \<and>
                     qty line \<le> purchased_quantity b - (\<Sum>l \<in> fset (allocations b). qty l))), b)"
  by (auto simp: can_allocate_def available_quantity_def allocated_quantity_sum)

lemma available_finsert:
  "line |\<notin>| allocations b \<Longrightarrow>
   available_quantity (b\<lparr>allocations := finsert line (allocations b)\<rparr>) = available_quantity b - qty line"
  by (simp add: available_quantity_def allocated_quantity_sum)

lemma available_fminus:
  "line |\<in>| allocations b \<Longrightarrow>
   available_quantity (b\<lparr>allocations := allocations b |-| {|line|}\<rparr>) = available_quantity b + qty line"
  by (simp add: available_quantity_def allocated_quantity_sum sum_diff1)

lemma Batch_deallocate_eq:
  "Batch_deallocate b line =
     Inr (if line |\<in>| allocations b then b\<lparr>allocations := allocations b |-| {|line|}\<rparr> else b)"
  by (simp add: Batch_deallocate_def set_remove_def)

lemma inv_allocate: "batch_inv b \<Longrightarrow> 0 < qty line \<Longrightarrow> batch_inv (Batch_allocate b line)"
  apply (cases "line |\<in>| allocations b")
   apply (simp add: Batch_allocate_def finsert_absorb)
  apply (auto simp: Batch_allocate_def batch_inv_def available_finsert can_allocate_def)
  done

lemma inv_deallocate: "batch_inv b \<Longrightarrow> Batch_deallocate b line = Inr b' \<Longrightarrow> batch_inv b'"
  by (auto simp: Batch_deallocate_eq batch_inv_def available_fminus split: if_splits)

lemma inv_invoke:
  "batch_inv b \<Longrightarrow> 0 < qty (call_line c) \<Longrightarrow> \<exists>v b'. invoke c b = (Inr v, b') \<and> batch_inv b'"
proof (cases c)
  case (Allocate l)
  then show "batch_inv b \<Longrightarrow> 0 < qty (call_line c) \<Longrightarrow> ?thesis" by (simp add: inv_allocate)
next
  case (Deallocate l)
  then show "batch_inv b \<Longrightarrow> 0 < qty (call_line c) \<Longrightarrow> ?thesis"
    using inv_deallocate[where b=b and line=l] by (auto simp: Batch_deallocate_eq)
next
  case (CanAllocate l)
  then show "batch_inv b \<Longrightarrow> 0 < qty (call_line c) \<Longrightarrow> ?thesis" by simp
qed

lemma inv_run:
  "batch_inv b \<Longrightarrow> \<forall>c\<in>set cs. 0 < qty (call_line c) \<Longrightarrow> \<exists>b'. run cs b = Inr b' \<and> batch_inv b'"
proof (induction cs arbitrary: b)
  case Nil
  then show ?case by simp
next
  case (Cons c cs)
  from Cons.prems obtain v b1 where s: "invoke c b = (Inr v, b1)" and i: "batch_inv b1"
    using inv_invoke[of b c] by auto
  from Cons.IH[OF i] Cons.prems(2) obtain b' where "run cs b1 = Inr b'" "batch_inv b'" by auto
  with s show ?case by simp
qed

lemma inv_Batch: "0 \<le> q \<Longrightarrow> batch_inv (Batch ref s q e)"
  by (simp add: batch_inv_def Batch_def available_quantity_def allocated_quantity_sum)

text \<open>
  C4. A batch is constructed with a purchased quantity that is not negative. After every
  prefix of a sequence of method calls whose lines ask for positive quantities, no call
  has raised and the available quantity is not negative. Moreover, on any batch,
  \<^verbatim>\<open>allocate\<close> adds a line that was not allocated only if the available quantity is not
  negative afterwards.
\<close>

theorem available_quantity_invariant:
  assumes "0 \<le> q" and "\<forall>c\<in>set cs. 0 < qty (call_line c)"
  shows "(\<exists>b. run (take n cs) (Batch ref s q e) = Inr b \<and> 0 \<le> available_quantity b)
    \<and> (line |\<notin>| allocations b0 \<and> line |\<in>| allocations (Batch_allocate b0 line)
        \<longrightarrow> 0 \<le> available_quantity (Batch_allocate b0 line))"
proof
  have "\<forall>c\<in>set (take n cs). 0 < qty (call_line c)"
    using assms(2) by (auto dest: in_set_takeD)
  from inv_run[OF inv_Batch[OF assms(1), of ref s e] this]
  show "\<exists>b. run (take n cs) (Batch ref s q e) = Inr b \<and> 0 \<le> available_quantity b"
    by (auto simp: batch_inv_def)
next
  show "line |\<notin>| allocations b0 \<and> line |\<in>| allocations (Batch_allocate b0 line)
        \<longrightarrow> 0 \<le> available_quantity (Batch_allocate b0 line)"
    by (auto simp: Batch_allocate_def available_finsert can_allocate_def split: if_splits)
qed

theorem available_quantity_invariant_witness:
  "(\<exists>b. run (take 2 [Allocate table_line, Allocate table_line, Deallocate table_line]) table_batch = Inr b
        \<and> 0 \<le> available_quantity b)
   \<and> available_quantity (Batch_allocate table_batch table_line) = 18"
  using available_quantity_invariant[of 20 "[Allocate table_line, Allocate table_line, Deallocate table_line]"
      2 "''batch-001''" "''SMALL-TABLE''" "Some 738000" table_line table_batch]
  by (simp add: table_batch_def table_line_def Batch_def Batch_allocate_def can_allocate_def
      available_quantity_def allocated_quantity_sum)

text \<open>
  C6. \<^verbatim>\<open>Batch.allocate\<close> is idempotent: a second call with the same line leaves the batch,
  its allocations and its available quantity as the first call left them.
\<close>

theorem Batch_allocate_idempotent:
  "Batch_allocate (Batch_allocate b line) line = Batch_allocate b line
   \<and> available_quantity (Batch_allocate (Batch_allocate b line) line)
       = available_quantity (Batch_allocate b line)
   \<and> allocations (Batch_allocate (Batch_allocate b line) line)
       = allocations (Batch_allocate b line)
   \<and> run [Allocate line, Allocate line] b = run [Allocate line] b"
proof -
  have "Batch_allocate (Batch_allocate b line) line = Batch_allocate b line"
    by (auto simp: Batch_allocate_def)
  then show ?thesis by simp
qed

text \<open>
  C7. \<^verbatim>\<open>Batch.allocate\<close> and \<^verbatim>\<open>Batch.deallocate\<close> return \<^verbatim>\<open>None\<close> and never raise.
  \<^verbatim>\<open>allocate\<close> with a line that cannot be allocated and \<^verbatim>\<open>deallocate\<close> with a line that
  is not allocated leave the batch, hence its allocations and its available quantity,
  unchanged.
\<close>

theorem Batch_methods_never_raise:
  "(\<exists>b'. invoke (Allocate line) b = (Inr PyNone, b'))
   \<and> (\<exists>b'. invoke (Deallocate line) b = (Inr PyNone, b'))
   \<and> (\<not> can_allocate b line \<longrightarrow> invoke (Allocate line) b = (Inr PyNone, b))
   \<and> (line |\<notin>| allocations b \<longrightarrow> invoke (Deallocate line) b = (Inr PyNone, b))"
  by (simp add: Batch_allocate_def Batch_deallocate_eq)

theorem Batch_methods_never_raise_witness:
  "\<not> can_allocate small_batch large_line \<and> large_line |\<notin>| allocations small_batch
   \<and> invoke (Allocate large_line) small_batch = (Inr PyNone, small_batch)
   \<and> invoke (Deallocate large_line) small_batch = (Inr PyNone, small_batch)
   \<and> available_quantity small_batch = 2"
  using Batch_methods_never_raise[of large_line small_batch]
  by (simp add: small_batch_def large_line_def Batch_def can_allocate_def
      available_quantity_def allocated_quantity_sum)

section \<open>Properties of the kernel\<close>

text \<open>
  C10. On an empty list of batches the kernel raises \<^verbatim>\<open>OutOfStock\<close> with the message
  naming the line's SKU, the same exception as when no batch can take the line, and the
  heap is unchanged.
\<close>

theorem allocate_empty:
  "allocate line [] h = (Inl (OutOfStock (''Out of stock for sku '' @ order_line.sku line)), h)"
  by (simp add: allocate_def sorted_batches_def sorted_py_def)


lemma set_insort_lt: "set (insort_lt lt x ys) = insert x (set ys)"
  by (induction ys) auto

lemma set_sorted_py: "set (sorted_py lt xs) = set xs"
  by (induction xs) (simp_all add: sorted_py_def set_insort_lt)

lemma set_sorted_batches: "set (sorted_batches h bs) = set bs"
  by (simp add: sorted_batches_def set_sorted_py)

text \<open>
  The sorted list is the stable sort of the batches by their eta, where no eta comes
  before every date: the order that \<^verbatim>\<open>__gt__\<close> induces is a strict weak order, so every
  stable sort that compares with \<^verbatim>\<open><\<close> produces this list.
\<close>

lemma Batch_lt_eta: "Batch_lt x y \<longleftrightarrow> eta x < eta y"
  by (cases "eta x"; cases "eta y") (simp_all add: Batch_lt_def Batch_gt_def)

lemma insort_lt_key:
  "(\<And>a b. lt a b \<longleftrightarrow> f a < f b) \<Longrightarrow> insort_lt lt x ys = insort_key f x ys"
  by (induction ys) (auto simp: not_less)

lemma sorted_py_key:
  assumes "\<And>a b. lt a b \<longleftrightarrow> f a < f b"
  shows "sorted_py lt xs = sort_key f xs"
  by (induction xs) (simp_all add: sorted_py_def insort_lt_key[of lt f, OF assms])

lemma sorted_batches_sort_key: "sorted_batches h bs = sort_key (\<lambda>b. eta (h b)) bs"
  unfolding sorted_batches_def by (rule sorted_py_key) (simp add: Batch_lt_eta)

lemma sorted_wrt_insort_lt:
  assumes tr: "\<And>a b c. \<not> lt b a \<Longrightarrow> \<not> lt c b \<Longrightarrow> \<not> lt c a"
    and asym: "\<And>a b. lt a b \<Longrightarrow> \<not> lt b a"
  shows "sorted_wrt (\<lambda>a b. \<not> lt b a) ys \<Longrightarrow> sorted_wrt (\<lambda>a b. \<not> lt b a) (insort_lt lt x ys)"
proof (induction ys)
  case Nil
  then show ?case by simp
next
  case (Cons y ys)
  show ?case
  proof (cases "lt y x")
    case True
    with Cons asym[OF True] show ?thesis by (auto simp: set_insort_lt)
  next
    case False
    with Cons show ?thesis using tr[OF False] by auto
  qed
qed

lemma sorted_wrt_sorted_py:
  assumes tr: "\<And>a b c. \<not> lt b a \<Longrightarrow> \<not> lt c b \<Longrightarrow> \<not> lt c a"
    and asym: "\<And>a b. lt a b \<Longrightarrow> \<not> lt b a"
  shows "sorted_wrt (\<lambda>a b. \<not> lt b a) (sorted_py lt xs)"
proof (induction xs)
  case Nil
  then show ?case by (simp add: sorted_py_def)
next
  case (Cons x xs)
  have "sorted_py lt (x # xs) = insort_lt lt x (sorted_py lt xs)"
    by (simp add: sorted_py_def)
  with Cons sorted_wrt_insort_lt[of lt, OF tr asym] show ?case by simp
qed

lemma Batch_gt_trans: "\<not> Batch_gt a b \<Longrightarrow> \<not> Batch_gt b c \<Longrightarrow> \<not> Batch_gt a c"
  by (auto simp: Batch_gt_def split: if_splits)

lemma Batch_gt_asym: "Batch_gt a b \<Longrightarrow> \<not> Batch_gt b a"
  by (auto simp: Batch_gt_def split: if_splits)

lemma sorted_sorted_batches:
  "sorted_wrt (\<lambda>a b. \<not> Batch_gt (h a) (h b)) (sorted_batches h bs)"
proof -
  let ?lt = "\<lambda>x y. Batch_lt (h x) (h y)"
  have tr: "\<not> ?lt b a \<Longrightarrow> \<not> ?lt c b \<Longrightarrow> \<not> ?lt c a" for a b c
    unfolding Batch_lt_def by (rule Batch_gt_trans)
  have asym: "?lt a b \<Longrightarrow> \<not> ?lt b a" for a b
    unfolding Batch_lt_def by (rule Batch_gt_asym)
  have "sorted_wrt (\<lambda>a b. \<not> ?lt b a) (sorted_py ?lt bs)"
    using tr asym by (rule sorted_wrt_sorted_py)
  then show ?thesis by (simp add: sorted_batches_def Batch_lt_def)
qed

lemma find_sorted_least:
  "sorted_wrt R xs \<Longrightarrow> find P xs = Some x \<Longrightarrow> y \<in> set xs \<Longrightarrow> P y \<Longrightarrow> x = y \<or> R x y"
  by (induction xs) (auto split: if_splits)

lemma find_Some_mem: "find P xs = Some x \<Longrightarrow> x \<in> set xs \<and> P x"
  by (induction xs) (auto split: if_splits)

lemma Batch_gt_irrefl: "\<not> Batch_gt a a"
  by (simp add: Batch_gt_def)

lemma next_batch:
  assumes "\<exists>c\<in>set bs. can_allocate (h c) line"
  shows "\<exists>b\<in>set bs. find (\<lambda>b. can_allocate (h b) line) (sorted_batches h bs) = Some b
            \<and> can_allocate (h b) line
            \<and> (\<forall>c\<in>set bs. can_allocate (h c) line \<longrightarrow> \<not> Batch_gt (h b) (h c))"
proof -
  let ?P = "\<lambda>b. can_allocate (h b) line"
  from assms have "find ?P (sorted_batches h bs) \<noteq> None"
    by (auto simp: find_None_iff set_sorted_batches)
  then obtain b where f: "find ?P (sorted_batches h bs) = Some b" by auto
  from find_Some_mem[OF f] have m: "b \<in> set bs" "?P b" by (simp_all add: set_sorted_batches)
  have "\<not> Batch_gt (h b) (h c)" if "c \<in> set bs" "?P c" for c
    using find_sorted_least[OF sorted_sorted_batches f, of c] that
    by (auto simp: set_sorted_batches Batch_gt_irrefl)
  with f m show ?thesis by blast
qed

lemma next_batch_none:
  "(\<forall>b\<in>set bs. \<not> can_allocate (h b) line)
    \<longleftrightarrow> find (\<lambda>b. can_allocate (h b) line) (sorted_batches h bs) = None"
  by (auto simp: find_None_iff set_sorted_batches)

lemma reference_Batch_allocate: "reference (Batch_allocate b line) = reference b"
  by (simp add: Batch_allocate_def)

lemma not_gt_eta:
  "\<not> Batch_gt b c \<longleftrightarrow> (eta b = None \<or> (\<exists>d d'. eta b = Some d \<and> eta c = Some d' \<and> d \<le> d'))"
  by (cases "eta b"; cases "eta c") (auto simp: Batch_gt_def)

text \<open>
  C1. When some batch of the list can allocate the line, the kernel succeeds on a batch
  that can allocate it, and this batch is the most preferred of all that can: if any of them
  has no eta, the selected batch has none, and otherwise the eta of the selected batch is
  at most the eta of each of them.
\<close>

theorem allocate_prefers_in_stock_then_earliest:
  assumes "\<exists>c\<in>set bs. can_allocate (h c) line"
  shows "\<exists>b\<in>set bs. can_allocate (h b) line
           \<and> allocate line bs h = (Inr (reference (h b)), h(b := Batch_allocate (h b) line))
           \<and> (\<forall>c\<in>set bs. can_allocate (h c) line \<longrightarrow>
                 (eta (h c) = None \<longrightarrow> eta (h b) = None)
               \<and> (\<forall>d. eta (h c) = Some d \<longrightarrow>
                      eta (h b) = None \<or> (\<exists>d'. eta (h b) = Some d' \<and> d' \<le> d)))"
proof -
  from next_batch[OF assms] obtain b where b: "b \<in> set bs"
    "find (\<lambda>b. can_allocate (h b) line) (sorted_batches h bs) = Some b"
    "can_allocate (h b) line"
    "\<forall>c\<in>set bs. can_allocate (h c) line \<longrightarrow> \<not> Batch_gt (h b) (h c)" by blast
  have "allocate line bs h = (Inr (reference (h b)), h(b := Batch_allocate (h b) line))"
    by (simp add: allocate_def b(2) reference_Batch_allocate)
  moreover have "(eta (h c) = None \<longrightarrow> eta (h b) = None)
               \<and> (\<forall>d. eta (h c) = Some d \<longrightarrow>
                      eta (h b) = None \<or> (\<exists>d'. eta (h b) = Some d' \<and> d' \<le> d))"
    if "c \<in> set bs" "can_allocate (h c) line" for c
    using b(4) that by (auto simp: not_gt_eta)
  ultimately show ?thesis using b(1,3) by blast
qed

text \<open>
  C2. The kernel raises exactly when no batch of the list can allocate the line; it then
  raises \<^verbatim>\<open>OutOfStock\<close> with the line's SKU in the message, and the heap, hence every
  batch's allocations and available quantity, is unchanged.
\<close>

theorem allocate_out_of_stock:
  "((\<exists>e. fst (allocate line bs h) = Inl e) \<longleftrightarrow> (\<forall>b\<in>set bs. \<not> can_allocate (h b) line))
   \<and> ((\<forall>b\<in>set bs. \<not> can_allocate (h b) line) \<longrightarrow>
        allocate line bs h = (Inl (OutOfStock (''Out of stock for sku '' @ order_line.sku line)), h))"
  unfolding next_batch_none by (auto simp: allocate_def Let_def split: option.splits)

text \<open>
  C5, as amended. A successful call returns the reference of the selected batch, whose
  allocations afterwards are the former ones with the line added, and every other batch is
  unchanged. At most one batch changes: none at all exactly when the line was already
  allocated to the selected batch.
\<close>

theorem allocate_frame:
  assumes "\<exists>c\<in>set bs. can_allocate (h c) line"
  shows "\<exists>b\<in>set bs. can_allocate (h b) line
           \<and> fst (allocate line bs h) = Inr (reference (h b))
           \<and> snd (allocate line bs h) b = (h b)\<lparr>allocations := finsert line (allocations (h b))\<rparr>
           \<and> (\<forall>a. a \<noteq> b \<longrightarrow> snd (allocate line bs h) a = h a)
           \<and> (snd (allocate line bs h) = h \<longleftrightarrow> line |\<in>| allocations (h b))"
proof -
  from next_batch[OF assms] obtain b where b: "b \<in> set bs"
    "find (\<lambda>b. can_allocate (h b) line) (sorted_batches h bs) = Some b"
    "can_allocate (h b) line" by blast
  have a: "allocate line bs h = (Inr (reference (h b)), h(b := Batch_allocate (h b) line))"
    by (simp add: allocate_def b(2) reference_Batch_allocate)
  have e: "Batch_allocate (h b) line = (h b)\<lparr>allocations := finsert line (allocations (h b))\<rparr>"
    using b(3) by (simp add: Batch_allocate_def)
  have "(h(b := Batch_allocate (h b) line) = h) \<longleftrightarrow> line |\<in>| allocations (h b)"
  proof
    assume "h(b := Batch_allocate (h b) line) = h"
    then have "Batch_allocate (h b) line = h b" by (metis fun_upd_same)
    then have "allocations ((h b)\<lparr>allocations := finsert line (allocations (h b))\<rparr>) = allocations (h b)"
      using e by simp
    then show "line |\<in>| allocations (h b)" by auto
  next
    assume "line |\<in>| allocations (h b)"
    then show "h(b := Batch_allocate (h b) line) = h"
      by (simp add: e finsert_absorb)
  qed
  with a e b(1,3) show ?thesis by auto
qed


lemmas kernel_eval =
  allocate_def sorted_batches_def sorted_py_def Batch_lt_def Batch_gt_def can_allocate_def
  available_quantity_def allocated_quantity_sum Batch_allocate_def Batch_def

theorem allocate_prefers_in_stock_then_earliest_witness:
  "can_allocate (clock_heap 0) clock_line \<and> can_allocate (clock_heap 1) clock_line
   \<and> allocate clock_line [1, 0] clock_heap = (Inr ''in-stock-batch'', clock_heap_allocated)"
  using allocate_prefers_in_stock_then_earliest[of "[1, 0]" clock_heap clock_line]
  by (simp add: kernel_eval clock_heap_def clock_heap_allocated_def clock_line_def)

theorem allocate_out_of_stock_witness:
  "\<not> can_allocate (clock_heap 0) toaster_line \<and> \<not> can_allocate (clock_heap 1) toaster_line
   \<and> allocate toaster_line [0, 1] clock_heap
       = (Inl (OutOfStock ''Out of stock for sku EXPENSIVE-TOASTER''), clock_heap)"
  using allocate_out_of_stock[of toaster_line "[0, 1]" clock_heap]
  by (simp add: kernel_eval clock_heap_def toaster_line_def)

text \<open>
  C5 as stated fails: when the line is already allocated to the batch that is selected,
  the call succeeds and mutates no batch, since adding to the set is idempotent.
\<close>

theorem allocate_again_counterexample:
  "allocate clock_line [0, 1] clock_heap_allocated = (Inr ''in-stock-batch'', clock_heap_allocated)"
  by (simp add: kernel_eval clock_heap_def clock_heap_allocated_def clock_line_def)

theorem allocate_frame_witness:
  "can_allocate (clock_heap 0) clock_line
   \<and> fst (allocate clock_line [0, 1] clock_heap) = Inr ''in-stock-batch''
   \<and> available_quantity (snd (allocate clock_line [0, 1] clock_heap) 0) = 90
   \<and> snd (allocate clock_line [0, 1] clock_heap) 1 = clock_heap 1"
  using allocate_frame[of "[0, 1]" clock_heap clock_line]
  by (simp add: kernel_eval clock_heap_def clock_line_def)

section \<open>Properties of the service layer and of the aggregate\<close>


lemma allocate_result:
  "(\<exists>r. fst (allocate line bs h) = Inr r)
   \<or> allocate line bs h = (Inl (OutOfStock (''Out of stock for sku '' @ order_line.sku line)), h)"
  by (simp add: allocate_def Let_def split: option.splits)

lemma allocate_not_InvalidSku: "fst (allocate line bs h) \<noteq> Inl (InvalidSku m)"
  using allocate_result[of line bs h] by auto

lemma is_valid_sku_iff:
  "is_valid_sku s bs h \<longleftrightarrow> \<not> (\<forall>b\<in>set bs. batch.sku (h b) \<noteq> s)"
  by (auto simp: is_valid_sku_def)

lemma services_allocate_invalid:
  "\<not> is_valid_sku (order_line.sku line) (repo_rows st) (st_heap st) \<Longrightarrow>
   services_allocate_with k line st = (Inl (InvalidSku (''Invalid sku '' @ order_line.sku line)), st)"
  by (simp add: services_allocate_with_def)

lemma services_allocate_valid:
  "is_valid_sku (order_line.sku line) (repo_rows st) (st_heap st) \<Longrightarrow>
   fst (services_allocate line st) = fst (allocate line (repo_rows st) (st_heap st))"
  by (simp add: services_allocate_def services_allocate_with_def split: prod.splits sum.splits)

lemma Product_allocate_not_InvalidSku: "fst (Product_allocate p line h) \<noteq> Inl (InvalidSku m)"
  using allocate_not_InvalidSku[of line "batches p" h]
  by (cases "allocate line (batches p) h") (auto simp: Product_allocate_def split: sum.splits)

lemma services_allocate_uow_invalid:
  "rows u s = None \<Longrightarrow>
   services_allocate_uow_with k oid s q u = (Inl (InvalidSku (''Invalid sku '' @ s)), u)"
  by (simp add: services_allocate_uow_with_def repository_get_def)

lemma services_allocate_uow_valid:
  "rows u s = Some p \<Longrightarrow>
   fst (services_allocate_uow oid s q u)
     = fst (Product_allocate p \<lparr>orderid = oid, sku = s, qty = q\<rparr> (uow_heap u))"
  by (cases "Product_allocate p \<lparr>orderid = oid, sku = s, qty = q\<rparr> (uow_heap u)")
    (auto simp: services_allocate_uow_def services_allocate_uow_with_def repository_get_def
      Let_def split: sum.splits)

text \<open>
  C8. Both services raise \<^verbatim>\<open>InvalidSku\<close> exactly when the line's SKU is the SKU of no
  batch that the repository lists, respectively of no product that the repository holds.
  In that case the result is the exception and the unchanged state whatever the kernel is:
  the kernel is not called, nothing is committed and no batch is mutated.
\<close>

theorem services_validate_sku:
  "((\<exists>m. fst (services_allocate line st) = Inl (InvalidSku m))
      \<longleftrightarrow> (\<forall>b\<in>set (repo_rows st). batch.sku (st_heap st b) \<noteq> order_line.sku line))
   \<and> ((\<forall>b\<in>set (repo_rows st). batch.sku (st_heap st b) \<noteq> order_line.sku line) \<longrightarrow>
        (\<forall>k. services_allocate_with k line st
               = (Inl (InvalidSku (''Invalid sku '' @ order_line.sku line)), st)))
   \<and> ((\<exists>m. fst (services_allocate_uow oid s q u) = Inl (InvalidSku m)) \<longleftrightarrow> rows u s = None)
   \<and> (rows u s = None \<longrightarrow>
        (\<forall>k. services_allocate_uow_with k oid s q u = (Inl (InvalidSku (''Invalid sku '' @ s)), u)))"
proof (intro conjI)
  show "(\<exists>m. fst (services_allocate line st) = Inl (InvalidSku m))
      \<longleftrightarrow> (\<forall>b\<in>set (repo_rows st). batch.sku (st_heap st b) \<noteq> order_line.sku line)"
  proof (cases "is_valid_sku (order_line.sku line) (repo_rows st) (st_heap st)")
    case True
    then show ?thesis
      using services_allocate_valid[OF True] allocate_not_InvalidSku[of line "repo_rows st" "st_heap st"]
      by (simp add: is_valid_sku_iff)
  next
    case False
    then show ?thesis
      using services_allocate_invalid[OF False, of allocate]
      by (simp add: is_valid_sku_iff services_allocate_def)
  qed
next
  show "(\<forall>b\<in>set (repo_rows st). batch.sku (st_heap st b) \<noteq> order_line.sku line) \<longrightarrow>
        (\<forall>k. services_allocate_with k line st
               = (Inl (InvalidSku (''Invalid sku '' @ order_line.sku line)), st))"
    using services_allocate_invalid[of line st] by (simp add: is_valid_sku_iff)
next
  show "(\<exists>m. fst (services_allocate_uow oid s q u) = Inl (InvalidSku m)) \<longleftrightarrow> rows u s = None"
  proof (cases "rows u s")
    case None
    then show ?thesis
      using services_allocate_uow_invalid[OF None, of Product_allocate oid q]
      by (simp add: services_allocate_uow_def)
  next
    case (Some p)
    then show ?thesis
      using services_allocate_uow_valid[OF Some, of oid q] Product_allocate_not_InvalidSku
      by simp
  qed
next
  show "rows u s = None \<longrightarrow>
        (\<forall>k. services_allocate_uow_with k oid s q u = (Inl (InvalidSku (''Invalid sku '' @ s)), u))"
    using services_allocate_uow_invalid[of u s] by simp
qed

theorem services_validate_sku_witness:
  "services_allocate toaster_line clock_state
     = (Inl (InvalidSku ''Invalid sku EXPENSIVE-TOASTER''), clock_state)
   \<and> rows clock_uow ''EXPENSIVE-TOASTER'' = None
   \<and> services_allocate_uow ''order-123'' ''EXPENSIVE-TOASTER'' 10 clock_uow
     = (Inl (InvalidSku ''Invalid sku EXPENSIVE-TOASTER''), clock_uow)"
  using services_validate_sku[of toaster_line clock_state "''order-123''" "''EXPENSIVE-TOASTER''" 10 clock_uow]
  by (simp add: services_allocate_def services_allocate_uow_def clock_state_def clock_uow_def
      toaster_line_def clock_heap_def Batch_def)

lemma Product_allocate_version_step:
  "version_number (fst (snd (Product_allocate p line h)))
     = version_number p + (if isl (fst (Product_allocate p line h)) then 0 else 1)"
  by (simp add: Product_allocate_def split: prod.splits sum.splits)

text \<open>
  C9. A successful \<^verbatim>\<open>Product.allocate\<close> increments \<^verbatim>\<open>version_number\<close> by one and no call
  decreases it: after a sequence of allocations against one product the version number
  has grown by the number of successful allocations.
\<close>

theorem Product_allocate_version_number:
  "(\<forall>r. fst (Product_allocate p line h) = Inr r \<longrightarrow>
        version_number (fst (snd (Product_allocate p line h))) = version_number p + 1)
   \<and> version_number p \<le> version_number (fst (snd (Product_allocate p line h)))
   \<and> version_number (fst (snd (allocate_lines ls p h)))
       = version_number p + int (length (filter (\<lambda>r. \<not> isl r) (fst (allocate_lines ls p h))))"
proof (intro conjI)
  show "\<forall>r. fst (Product_allocate p line h) = Inr r \<longrightarrow>
        version_number (fst (snd (Product_allocate p line h))) = version_number p + 1"
    by (simp add: Product_allocate_version_step)
  show "version_number p \<le> version_number (fst (snd (Product_allocate p line h)))"
    by (simp add: Product_allocate_version_step)
  show "version_number (fst (snd (allocate_lines ls p h)))
       = version_number p + int (length (filter (\<lambda>r. \<not> isl r) (fst (allocate_lines ls p h))))"
  proof (induction ls arbitrary: p h)
    case Nil
    then show ?case by simp
  next
    case (Cons l ls)
    obtain r p' h' where s: "Product_allocate p l h = (r, p', h')" by (cases "Product_allocate p l h")
    have v: "version_number p' = version_number p + (if isl r then 0 else 1)"
      using Product_allocate_version_step[of p l h] s by simp
    obtain rs p'' h'' where t: "allocate_lines ls p' h' = (rs, p'', h'')"
      by (cases "allocate_lines ls p' h'")
    show ?case using Cons.IH[of p' h'] s v t by simp
  qed
qed

theorem Product_allocate_version_number_witness:
  "fst (Product_allocate clock_product clock_line clock_heap) = Inr ''in-stock-batch''
   \<and> version_number (fst (snd (Product_allocate clock_product clock_line clock_heap))) = 1"
  using Product_allocate_version_number[of clock_product clock_line clock_heap "[]"]
  by (simp add: Product_allocate_def clock_product_def kernel_eval clock_heap_def clock_line_def)

end
